theory Spec2Isabelle
  imports Complex_Main "HOL-Library.List_Lexorder" "HOL-Library.Char_ord"
begin

section \<open>Pixels and grids\<close>

text \<open>
  The analysis of \<^verbatim>\<open>Processing/analysis.py\<close> works on numpy arrays of
  \<^verbatim>\<open>float64\<close>. A pixel is modelled as a \<open>cell\<close>: either the not-a-number marker
  \<open>NaN\<close> (an invalid pixel) or a finite value. Finite values are idealised as real
  numbers: rounding of the floating-point operations is not modelled, and no operation of
  the modelled functions produces an infinity from finite digital values.
  A two-dimensional array is a list of rows; the raw bands hold integer digital values.
\<close>

datatype cell = NaN | Val real

type_synonym grid = "cell list list"

type_synonym dn_grid = "int list list"

text \<open>Element-wise operations. Arithmetic with \<open>NaN\<close> yields \<open>NaN\<close>.\<close>

fun cell_map :: "(real \<Rightarrow> real) \<Rightarrow> cell \<Rightarrow> cell" where
  "cell_map f NaN = NaN"
| "cell_map f (Val v) = Val (f v)"

fun cell_map2 :: "(real \<Rightarrow> real \<Rightarrow> real) \<Rightarrow> cell \<Rightarrow> cell \<Rightarrow> cell" where
  "cell_map2 f (Val a) (Val b) = Val (f a b)"
| "cell_map2 f _ _ = NaN"

definition grid_map :: "('a \<Rightarrow> 'b) \<Rightarrow> 'a list list \<Rightarrow> 'b list list" where
  "grid_map f g = map (map f) g"

definition grid_map2 :: "('a \<Rightarrow> 'b \<Rightarrow> 'c) \<Rightarrow> 'a list list \<Rightarrow> 'b list list \<Rightarrow> 'c list list" where
  "grid_map2 f g h = map2 (map2 f) g h"

text \<open>\<^verbatim>\<open>a.astype(np.float64)\<close> on an integer band.\<close>

definition astype_float64 :: "dn_grid \<Rightarrow> grid" where
  "astype_float64 g = grid_map (\<lambda>d. Val (real_of_int d)) g"

text \<open>\<^verbatim>\<open>np.where(a == 0, np.nan, a)\<close>: the comparison with \<open>NaN\<close> is false, so \<open>NaN\<close> stays.\<close>

fun zero_to_nan :: "cell \<Rightarrow> cell" where
  "zero_to_nan NaN = NaN"
| "zero_to_nan (Val v) = (if v = 0 then NaN else Val v)"

text \<open>\<^verbatim>\<open>a[~np.isnan(a)]\<close>: the valid values of a grid, flattened in row-major order.\<close>

fun cell_values :: "cell list \<Rightarrow> real list" where
  "cell_values [] = []"
| "cell_values (NaN # cs) = cell_values cs"
| "cell_values (Val v # cs) = v # cell_values cs"

definition valid_values :: "grid \<Rightarrow> real list" where
  "valid_values g = cell_values (concat g)"

text \<open>\<^verbatim>\<open>np.full_like(a, v)\<close>: an array of the shape of \<open>a\<close>, every element \<open>v\<close>.\<close>

definition full_like :: "'a list list \<Rightarrow> cell \<Rightarrow> grid" where
  "full_like g c = grid_map (\<lambda>_. c) g"

text \<open>\<^verbatim>\<open>np.clip(x, lo, hi)\<close> is \<^verbatim>\<open>minimum(maximum(x, lo), hi)\<close>.\<close>

definition np_clip :: "real \<Rightarrow> real \<Rightarrow> real \<Rightarrow> real" where
  "np_clip x lo hi = min (max x lo) hi"

section \<open>Reductions of numpy\<close>

text \<open>
  The reductions below are only called on non-empty arrays: every call in the source is
  guarded by \<^verbatim>\<open>len(valid) > 0\<close>.

  \<^verbatim>\<open>np.percentile(a, q)\<close> with the default linear interpolation: on the sorted
  array of length \<open>n\<close> the virtual index is \<open>(n - 1) * q / 100\<close>; the result
  interpolates between the elements at its floor and at the next index. The index is
  computed here with integer division and remainder by \<open>100\<close>.
\<close>

definition np_percentile :: "real list \<Rightarrow> nat \<Rightarrow> real" where
  "np_percentile a q =
     (let s = sort a;
          n = length s;
          k = (n - 1) * q;
          lo = k div 100;
          hi = min (lo + 1) (n - 1);
          gamma = real (k mod 100) / 100
      in s ! lo + gamma * (s ! hi - s ! lo))"

definition np_mean :: "real list \<Rightarrow> real" where
  "np_mean a = sum_list a / real (length a)"

text \<open>\<^verbatim>\<open>np.median\<close>: the middle element of the sorted array, or the mean of the two
  middle elements when the length is even.\<close>

definition np_median :: "real list \<Rightarrow> real" where
  "np_median a =
     (let s = sort a; n = length s
      in if odd n then s ! (n div 2) else (s ! (n div 2 - 1) + s ! (n div 2)) / 2)"

section \<open>Index engine\<close>

subsection \<open>Temperature estimate\<close>

text \<open>The final filter of \<^verbatim>\<open>simple_lst_calculation\<close>:
  \<^verbatim>\<open>np.where((lst < -50) | (lst > 80), np.nan, lst)\<close>.\<close>

fun discard_impossible :: "cell \<Rightarrow> cell" where
  "discard_impossible NaN = NaN"
| "discard_impossible (Val v) = (if v < - 50 \<or> v > 80 then NaN else Val v)"

definition simple_lst_calculation :: "dn_grid \<Rightarrow> grid" where
  "simple_lst_calculation thermal_dn =
     (let thermal_clean = grid_map zero_to_nan (astype_float64 thermal_dn);
          valid_thermal = valid_values thermal_clean
      in if length valid_thermal = 0 then thermal_clean
         else
           let min_dn = np_percentile valid_thermal 1;
               max_dn = np_percentile valid_thermal 99;
               (temp_min, temp_max) =
                  (if np_mean valid_thermal < 35000 then (10, 45) else (15, 50));
               dn_range = max_dn - min_dn;
               lst_celsius =
                 (if dn_range > 0 then
                    let normalized =
                          grid_map (cell_map (\<lambda>v. np_clip ((v - min_dn) / dn_range) 0 1))
                            thermal_clean
                    in grid_map (cell_map (\<lambda>n. temp_min + n * (temp_max - temp_min))) normalized
                  else full_like thermal_clean (Val ((temp_min + temp_max) / 2)))
           in grid_map discard_impossible lst_celsius)"

subsection \<open>Vegetation index\<close>

text \<open>
  \<^verbatim>\<open>np.where(denominator > 0, (nir - red) / denominator, np.nan)\<close>: numpy evaluates
  the quotient at every pixel and the selection keeps it only where the denominator is
  positive; a comparison with \<open>NaN\<close> is false. Where the denominator is zero the quotient
  (an infinity in floating point, \<open>0\<close> in the reals of HOL) is never selected.
  The two bands of one scene have the same shape.
\<close>

fun where_positive :: "cell \<Rightarrow> cell \<Rightarrow> cell" where
  "where_positive (Val d) q = (if d > 0 then q else NaN)"
| "where_positive NaN q = NaN"

definition simple_ndvi_calculation :: "dn_grid \<Rightarrow> dn_grid \<Rightarrow> grid" where
  "simple_ndvi_calculation red_dn nir_dn =
     (let red = grid_map zero_to_nan (astype_float64 red_dn);
          nir = grid_map zero_to_nan (astype_float64 nir_dn);
          denominator = grid_map2 (cell_map2 (+)) nir red;
          quotient = grid_map2 (cell_map2 (/)) (grid_map2 (cell_map2 (-)) nir red) denominator;
          ndvi = grid_map2 where_positive denominator quotient
      in grid_map (cell_map (\<lambda>v. np_clip v (- 1) 1)) ndvi)"

subsection \<open>Heat-anomaly index\<close>

definition simple_uhi_calculation :: "grid \<Rightarrow> grid" where
  "simple_uhi_calculation lst_data =
     (let valid_lst = valid_values lst_data
      in if length valid_lst = 0 then full_like lst_data NaN
         else
           let rural_temp = np_median valid_lst
           in grid_map (cell_map (\<lambda>v. v - rural_temp)) lst_data)"

section \<open>Dictionaries\<close>

text \<open>
  A Python \<^verbatim>\<open>dict\<close> keeps its keys in insertion order; assigning to a key that is
  present replaces the value in place. It is modelled as an association list.
\<close>

type_synonym ('k, 'v) dict = "('k \<times> 'v) list"

fun dict_set :: "('k, 'v) dict \<Rightarrow> 'k \<Rightarrow> 'v \<Rightarrow> ('k, 'v) dict" where
  "dict_set [] k v = [(k, v)]"
| "dict_set ((k', v') # d) k v = (if k' = k then (k, v) # d else (k', v') # dict_set d k v)"

definition dict_get :: "('k, 'v) dict \<Rightarrow> 'k \<Rightarrow> 'v option" where
  "dict_get d k = map_of d k"

definition dict_values :: "('k, 'v) dict \<Rightarrow> 'v list" where
  "dict_values d = map snd d"

section \<open>Statistics aggregator\<close>

text \<open>\<^verbatim>\<open>np.min\<close>, \<^verbatim>\<open>np.max\<close> and \<^verbatim>\<open>np.std\<close> (the population standard deviation,
  \<^verbatim>\<open>sqrt(mean(abs(a - a.mean())**2))\<close>) of a non-empty array.\<close>

definition np_min :: "real list \<Rightarrow> real" where
  "np_min a = fold min (tl a) (hd a)"

definition np_max :: "real list \<Rightarrow> real" where
  "np_max a = fold max (tl a) (hd a)"

definition np_std :: "real list \<Rightarrow> real" where
  "np_std a = sqrt (np_mean (map (\<lambda>x. \<bar>x - np_mean a\<bar> ^ 2) a))"

text \<open>The values of a statistics row: floats, and the period label added by
  \<^verbatim>\<open>process_image\<close>.\<close>

datatype pyval = PyFloat cell | PyStr string

type_synonym stats_row = "(string, pyval) dict"

text \<open>\<^verbatim>\<open>calculate_simple_stats\<close> writes the same block out once per index, with the
  key prefixes \<^verbatim>\<open>LST\<close>, \<^verbatim>\<open>NDVI\<close> and \<^verbatim>\<open>UHI\<close>; \<open>stats_block\<close> is that block.\<close>

definition stats_block :: "string \<Rightarrow> grid \<Rightarrow> stats_row \<Rightarrow> stats_row" where
  "stats_block name g stats =
     (let valid = valid_values g
      in if length valid > 0 then
           dict_set (dict_set (dict_set (dict_set stats
             (name @ ''_min'') (PyFloat (Val (np_min valid))))
             (name @ ''_max'') (PyFloat (Val (np_max valid))))
             (name @ ''_mean'') (PyFloat (Val (np_mean valid))))
             (name @ ''_std'') (PyFloat (Val (np_std valid)))
         else
           dict_set (dict_set (dict_set (dict_set stats
             (name @ ''_min'') (PyFloat NaN))
             (name @ ''_max'') (PyFloat NaN))
             (name @ ''_mean'') (PyFloat NaN))
             (name @ ''_std'') (PyFloat NaN))"

definition calculate_simple_stats :: "grid \<Rightarrow> grid \<Rightarrow> grid \<Rightarrow> stats_row" where
  "calculate_simple_stats lst ndvi uhi =
     stats_block ''UHI'' uhi (stats_block ''NDVI'' ndvi (stats_block ''LST'' lst []))"

section \<open>Visualization renderer: the colour range\<close>

text \<open>\<^verbatim>\<open>sub in s\<close> on Python strings.\<close>

definition starts_with :: "string \<Rightarrow> string \<Rightarrow> bool" where
  "starts_with pre s = (take (length pre) s = pre)"

fun str_contains :: "string \<Rightarrow> string \<Rightarrow> bool" where
  "str_contains sub [] = (sub = [])"
| "str_contains sub (c # cs) = (starts_with sub (c # cs) \<or> str_contains sub cs)"

text \<open>
  The part of \<^verbatim>\<open>create_simple_plot\<close> that chooses \<^verbatim>\<open>vmin\<close> and \<^verbatim>\<open>vmax\<close> from the
  data and the title; \<open>None\<close> is Python's \<^verbatim>\<open>None\<close>, which leaves the choice to the
  plotting library. The kind of index is read off the title.
\<close>

definition create_simple_plot_vrange :: "grid \<Rightarrow> string \<Rightarrow> real option \<times> real option" where
  "create_simple_plot_vrange data title =
     (let valid_data = valid_values data
      in if str_contains ''LST'' title \<or> str_contains ''Temperature'' title then
           if length valid_data > 0 then
             (Some (max 15 (np_percentile valid_data 2)), Some (min 60 (np_percentile valid_data 98)))
           else (Some 15, Some 50)
         else if str_contains ''UHI'' title then
           if length valid_data > 0 then
             let abs_max = max \<bar>np_percentile valid_data 2\<bar> \<bar>np_percentile valid_data 98\<bar>
             in (Some (- min abs_max 12), Some (min abs_max 12))
           else (Some (- 8), Some 8)
         else
           if length valid_data > 0 then
             (Some (np_percentile valid_data 5), Some (np_percentile valid_data 95))
           else (None, None))"

text \<open>\<^verbatim>\<open>save_outputs\<close> builds the title from the analysis type and the period and hands
  both to \<^verbatim>\<open>create_simple_plot\<close>.\<close>

definition save_outputs_title :: "string \<Rightarrow> string \<Rightarrow> string" where
  "save_outputs_title period analysis_type =
     (if analysis_type = ''LST'' then ''Land Surface Temperature - '' @ period
      else if analysis_type = ''UHI'' then ''Urban Heat Island - '' @ period
      else ''NDVI - '' @ period)"

definition save_outputs_vrange :: "grid \<Rightarrow> string \<Rightarrow> string \<Rightarrow> real option \<times> real option" where
  "save_outputs_vrange data period analysis_type =
     create_simple_plot_vrange data (save_outputs_title period analysis_type)"

section \<open>Scene processor and batch driver\<close>

text \<open>
  Exceptions are values. Reading a scene is a parameter of the model: \<open>reader path\<close> is
  what \<^verbatim>\<open>rasterio.open(path).read()\<close> yields, the list of bands, or the exception it
  raises. Writing the rasters, images and tables is not modelled.
\<close>

datatype exn = RasterioIOError | IndexError | ValueError | OSError

definition has_positive :: "dn_grid \<Rightarrow> bool" where
  "has_positive g = (\<exists>d \<in> set (concat g). d > 0)"

text \<open>
  \<^verbatim>\<open>process_image\<close>: \<^verbatim>\<open>bands[7]\<close> raises \<^verbatim>\<open>IndexError\<close> on a scene with fewer than
  eight bands, and \<^verbatim>\<open>band[band > 0].min()\<close> in the progress messages raises
  \<^verbatim>\<open>ValueError\<close> on a band without a positive value.
\<close>

definition process_image :: "(string \<Rightarrow> exn + dn_grid list) \<Rightarrow> string \<Rightarrow> string \<Rightarrow> exn + stats_row" where
  "process_image reader image_path period =
     (case reader image_path of
        Inl e \<Rightarrow> Inl e
      | Inr bands \<Rightarrow>
          if length bands < 8 then Inl IndexError
          else
            let red_dn = bands ! 3;
                nir_dn = bands ! 4;
                thermal_dn = bands ! 7
            in if \<not> has_positive red_dn \<or> \<not> has_positive nir_dn \<or> \<not> has_positive thermal_dn
               then Inl ValueError
               else
                 let lst = simple_lst_calculation thermal_dn;
                     ndvi = simple_ndvi_calculation red_dn nir_dn;
                     uhi = simple_uhi_calculation lst;
                     stats = calculate_simple_stats lst ndvi uhi
                 in Inr (dict_set stats ''Period'' (PyStr period)))"

text \<open>\<^verbatim>\<open>s.endswith(suf)\<close> and \<^verbatim>\<open>s.replace(old, '')\<close>, which deletes the occurrences of
  \<open>old\<close> from left to right.\<close>

definition ends_with :: "string \<Rightarrow> string \<Rightarrow> bool" where
  "ends_with suf s = (length suf \<le> length s \<and> drop (length s - length suf) s = suf)"

fun str_delete :: "string \<Rightarrow> string \<Rightarrow> string" where
  "str_delete old [] = []"
| "str_delete old (c # cs) =
     (if old \<noteq> [] \<and> starts_with old (c # cs) then str_delete old (drop (length old - 1) cs)
      else c # str_delete old cs)"

definition period_of :: "string \<Rightarrow> string" where
  "period_of image_file = str_delete ''_clipped_NGP.tif'' image_file"

definition path_join :: "string \<Rightarrow> string \<Rightarrow> string" where
  "path_join dir name = dir @ ''/'' @ name"

text \<open>The loop of \<^verbatim>\<open>run_analysis\<close> over the sorted scene files: the row of a scene
  that was processed is stored under its period, a scene that raised is skipped.\<close>

fun process_scenes ::
  "string \<Rightarrow> (string \<Rightarrow> exn + dn_grid list) \<Rightarrow> string list \<Rightarrow> (string, stats_row) dict
     \<Rightarrow> (string, stats_row) dict" where
  "process_scenes clipped_dir reader [] all_stats = all_stats"
| "process_scenes clipped_dir reader (image_file # rest) all_stats =
     (let period = period_of image_file;
          image_path = path_join clipped_dir image_file
      in case process_image reader image_path period of
           Inr stats \<Rightarrow> process_scenes clipped_dir reader rest (dict_set all_stats period stats)
         | Inl e \<Rightarrow> process_scenes clipped_dir reader rest all_stats)"

text \<open>
  \<^verbatim>\<open>run_analysis\<close>. \<open>listdir\<close> is what \<^verbatim>\<open>os.listdir(self.clipped_dir)\<close> yields, the
  names in the directory of clipped scenes, or the exception it raises (in
  \<^verbatim>\<open>setup_directories\<close>, outside any handler). The result is the list of rows of
  \<^verbatim>\<open>Analysis_Summary.csv\<close>, or \<open>None\<close> when no summary is written.
\<close>

definition run_analysis ::
  "string \<Rightarrow> (string \<Rightarrow> exn + dn_grid list) \<Rightarrow> exn + string list \<Rightarrow> exn + stats_row list option" where
  "run_analysis clipped_dir reader listdir =
     (case listdir of
        Inl e \<Rightarrow> Inl e
      | Inr names \<Rightarrow>
          let image_files = filter (ends_with ''.tif'') names
          in if image_files = [] then Inr None
             else
               let all_stats = process_scenes clipped_dir reader (sort image_files) []
               in if all_stats \<noteq> [] then Inr (Some (dict_values all_stats)) else Inr None)"

section \<open>Predicates used in the statements\<close>

text \<open>A pixel predicate: invalid, or a value within the given bounds.\<close>

fun cell_within :: "real \<Rightarrow> real \<Rightarrow> cell \<Rightarrow> bool" where
  "cell_within lo hi NaN = True"
| "cell_within lo hi (Val v) = (lo \<le> v \<and> v \<le> hi)"

definition grid_all :: "('a \<Rightarrow> bool) \<Rightarrow> 'a list list \<Rightarrow> bool" where
  "grid_all P g = (\<forall>row \<in> set g. \<forall>c \<in> set row. P c)"

text \<open>
  The statements about the temperature estimate are phrased with the following notions:
  the valid digital values of a thermal band (its non-zero pixels, in row-major order),
  the temperature range selected by their mean, and the remapping of one digital value:
  clamp it to the span between the 1st and the 99th percentile, normalise the span to
  \<open>[0, 1]\<close>, and map that linearly into the selected range.
\<close>

definition valid_dn :: "dn_grid \<Rightarrow> real list" where
  "valid_dn t = map real_of_int (filter (\<lambda>d. d \<noteq> 0) (concat t))"

definition regime_range :: "real list \<Rightarrow> real \<times> real" where
  "regime_range valid = (if np_mean valid < 35000 then (10, 45) else (15, 50))"

definition remap_pixel :: "real \<Rightarrow> real \<Rightarrow> real \<times> real \<Rightarrow> real \<Rightarrow> real" where
  "remap_pixel p1 p99 r d =
     fst r + (min (max d p1) p99 - p1) / (p99 - p1) * (snd r - fst r)"

text \<open>The vegetation index of one pixel, as the specification words it.\<close>

definition ndvi_pixel :: "int \<Rightarrow> int \<Rightarrow> cell" where
  "ndvi_pixel red nir =
     (if red \<noteq> 0 \<and> nir \<noteq> 0 \<and> real_of_int nir + real_of_int red > 0
      then Val (min 1 (max (- 1) ((real_of_int nir - real_of_int red) / (real_of_int nir + real_of_int red))))
      else NaN)"

text \<open>The rows of the scenes that are processed without an exception, in the order of
  the given files.\<close>

definition scene_rows :: "string \<Rightarrow> (string \<Rightarrow> exn + dn_grid list) \<Rightarrow> string list \<Rightarrow> stats_row list" where
  "scene_rows clipped_dir reader files =
     concat (map (\<lambda>f. case process_image reader (path_join clipped_dir f) (period_of f) of
                         Inr stats \<Rightarrow> [stats]
                       | Inl e \<Rightarrow> []) files)"

text \<open>An example directory: every scene has eight bands of the same 2x2 grid, and the
  scene \<^verbatim>\<open>b\<close> cannot be read.\<close>

definition example_scene :: "dn_grid list" where
  "example_scene = replicate 8 [[100, 200], [300, 400]]"

definition example_reader :: "string \<Rightarrow> exn + dn_grid list" where
  "example_reader path =
     (if path = ''clipped/b_clipped_NGP.tif'' then Inl RasterioIOError else Inr example_scene)"

section \<open>Properties of the temperature estimate\<close>

lemma discard_impossible_within: "cell_within (- 50) 80 (discard_impossible c)"
  by (cases c) auto

lemma grid_all_map: "grid_all P (grid_map f g) = grid_all (\<lambda>c. P (f c)) g"
  by (auto simp: grid_all_def grid_map_def)

lemma grid_all_True: "(\<And>c. P c) \<Longrightarrow> grid_all P g"
  by (simp add: grid_all_def)

lemma cell_values_clean: "cell_values (map (\<lambda>d. zero_to_nan (Val (real_of_int d))) ds) = map real_of_int (filter (\<lambda>d. d \<noteq> 0) ds)"
  by (induction ds) auto

lemma cell_values_append: "cell_values (xs @ ys) = cell_values xs @ cell_values ys"
  by (induction xs rule: cell_values.induct) auto

lemma valid_values_clean: "valid_values (grid_map zero_to_nan (astype_float64 t)) = valid_dn t"
proof -
  have "cell_values (concat (map (map zero_to_nan) (map (map (\<lambda>d. Val (real_of_int d))) t)))
      = map real_of_int (filter (\<lambda>d. d \<noteq> 0) (concat t))"
  proof (induction t)
    case Nil show ?case by simp
  next
    case (Cons row t)
    have "cell_values (map zero_to_nan (map (\<lambda>d. Val (real_of_int d)) row))
        = map real_of_int (filter (\<lambda>d. d \<noteq> 0) row)"
      using cell_values_clean[of row] by (simp add: comp_def)
    then show ?case using Cons by (simp add: cell_values_append)
  qed
  then show ?thesis
    by (simp only: valid_values_def grid_map_def astype_float64_def valid_dn_def)
qed

lemma cell_values_Nil: "cell_values cs = [] \<Longrightarrow> c \<in> set cs \<Longrightarrow> c = NaN"
  by (induction cs rule: cell_values.induct) auto

lemma valid_values_Nil: "valid_values g = [] \<Longrightarrow> grid_all (\<lambda>c. c = NaN) g"
  unfolding valid_values_def grid_all_def
  using cell_values_Nil by fastforce

lemma grid_all_mono: "grid_all P g \<Longrightarrow> (\<And>c. P c \<Longrightarrow> Q c) \<Longrightarrow> grid_all Q g"
  by (auto simp: grid_all_def)

lemma grid_map_cong_all: "grid_all (\<lambda>c. f c = h c) g \<Longrightarrow> grid_map f g = grid_map h g"
  by (auto simp: grid_all_def grid_map_def)

lemma grid_map_map: "grid_map f (grid_map h g) = grid_map (\<lambda>c. f (h c)) g"
  by (simp add: grid_map_def comp_def)

lemma clip01: "0 \<le> np_clip x 0 1 \<and> np_clip x 0 1 \<le> 1"
  by (simp add: np_clip_def)

lemma remap_bounds:
  fixes lo hi n :: real
  assumes "lo \<le> hi" "0 \<le> n" "n \<le> 1"
  shows "lo \<le> lo + n * (hi - lo) \<and> lo + n * (hi - lo) \<le> hi"
proof -
  have "0 \<le> n * (hi - lo)" using assms by simp
  moreover have "n * (hi - lo) \<le> 1 * (hi - lo)"
    using assms by (intro mult_right_mono) auto
  ultimately show ?thesis by simp
qed

lemma regime_range_cases: "regime_range v = (10, 45) \<or> regime_range v = (15, 50)"
  by (simp add: regime_range_def)

lemma simple_lst_calculation_empty:
  "valid_dn t = [] \<Longrightarrow> simple_lst_calculation t = grid_map zero_to_nan (astype_float64 t)"
  by (simp add: simple_lst_calculation_def valid_values_clean Let_def)

lemma discard_remap:
  assumes "r = (10, 45) \<or> r = (15, 50)"
  shows "discard_impossible (cell_map (\<lambda>n. fst r + n * (snd r - fst r)) (cell_map (\<lambda>v. np_clip ((v - a) / b) 0 1) c))
       = cell_map (\<lambda>v. fst r + np_clip ((v - a) / b) 0 1 * (snd r - fst r)) c"
proof (cases c)
  case NaN then show ?thesis by simp
next
  case (Val v)
  have "fst r \<le> snd r" using assms by auto
  from remap_bounds[OF this, of "np_clip ((v - a) / b) 0 1"] clip01[of "(v - a) / b"]
  have "fst r \<le> fst r + np_clip ((v - a) / b) 0 1 * (snd r - fst r)"
       "fst r + np_clip ((v - a) / b) 0 1 * (snd r - fst r) \<le> snd r" by auto
  moreover have "- 50 \<le> fst r" "snd r \<le> 80" using assms by auto
  ultimately show ?thesis using Val by simp
qed

lemma simple_lst_calculation_unfold:
  assumes "valid_dn t \<noteq> []"
  shows "simple_lst_calculation t =
    grid_map discard_impossible
      (if np_percentile (valid_dn t) 99 - np_percentile (valid_dn t) 1 > 0 then
         grid_map (cell_map (\<lambda>n. fst (regime_range (valid_dn t))
                    + n * (snd (regime_range (valid_dn t)) - fst (regime_range (valid_dn t)))))
           (grid_map (cell_map (\<lambda>v. np_clip ((v - np_percentile (valid_dn t) 1)
                / (np_percentile (valid_dn t) 99 - np_percentile (valid_dn t) 1)) 0 1))
              (grid_map zero_to_nan (astype_float64 t)))
       else full_like (grid_map zero_to_nan (astype_float64 t))
              (Val ((fst (regime_range (valid_dn t)) + snd (regime_range (valid_dn t))) / 2)))"
proof (cases "np_mean (valid_dn t) < 35000")
  case True
  then have r: "regime_range (valid_dn t) = (10, 45)" by (simp add: regime_range_def)
  show ?thesis using assms True unfolding r
    by (simp add: simple_lst_calculation_def valid_values_clean Let_def)
next
  case False
  then have r: "regime_range (valid_dn t) = (15, 50)" by (simp add: regime_range_def)
  show ?thesis using assms False unfolding r
    by (simp add: simple_lst_calculation_def valid_values_clean Let_def)
qed

lemma simple_lst_calculation_remap_raw:
  assumes "valid_dn t \<noteq> []"
    and "np_percentile (valid_dn t) 99 - np_percentile (valid_dn t) 1 > 0"
  shows "simple_lst_calculation t =
     grid_map (cell_map (\<lambda>v. fst (regime_range (valid_dn t))
         + np_clip ((v - np_percentile (valid_dn t) 1) / (np_percentile (valid_dn t) 99 - np_percentile (valid_dn t) 1)) 0 1
           * (snd (regime_range (valid_dn t)) - fst (regime_range (valid_dn t)))))
       (grid_map zero_to_nan (astype_float64 t))"
  unfolding simple_lst_calculation_unfold[OF assms(1)] if_P[OF assms(2)] grid_map_map
    discard_remap[OF regime_range_cases] ..

lemma simple_lst_calculation_degenerate:
  assumes "valid_dn t \<noteq> []"
    and "\<not> np_percentile (valid_dn t) 99 - np_percentile (valid_dn t) 1 > 0"
  shows "simple_lst_calculation t =
     full_like t (Val ((fst (regime_range (valid_dn t)) + snd (regime_range (valid_dn t))) / 2))"
proof -
  have "discard_impossible (Val ((fst (regime_range (valid_dn t)) + snd (regime_range (valid_dn t))) / 2))
      = Val ((fst (regime_range (valid_dn t)) + snd (regime_range (valid_dn t))) / 2)"
    using regime_range_cases[of "valid_dn t"] by auto
  then show ?thesis
    unfolding simple_lst_calculation_unfold[OF assms(1)] if_not_P[OF assms(2)]
    by (simp add: full_like_def grid_map_def astype_float64_def comp_def)
qed


lemma np_clip_unit:
  "x \<le> 0 \<Longrightarrow> np_clip x 0 1 = 0"
  "0 \<le> x \<Longrightarrow> x \<le> 1 \<Longrightarrow> np_clip x 0 1 = x"
  "1 \<le> x \<Longrightarrow> np_clip x 0 1 = 1"
  by (simp_all add: np_clip_def)

lemma clip_normalise:
  assumes "p1 < p99"
  shows "np_clip ((v - p1) / (p99 - p1)) 0 1 = (min (max v p1) p99 - p1) / (p99 - p1)"
proof -
  have pos: "0 < p99 - p1" using assms by simp
  consider "v \<le> p1" | "p1 < v" "v < p99" | "p99 \<le> v" by linarith
  then show ?thesis
  proof cases
    case 1
    then have "(v - p1) / (p99 - p1) \<le> 0" using pos by (simp add: divide_le_0_iff)
    then have "np_clip ((v - p1) / (p99 - p1)) 0 1 = 0" by (rule np_clip_unit)
    then show ?thesis using 1 assms by simp
  next
    case 2
    then have "0 \<le> (v - p1) / (p99 - p1)" "(v - p1) / (p99 - p1) \<le> 1" using pos by simp_all
    then have "np_clip ((v - p1) / (p99 - p1)) 0 1 = (v - p1) / (p99 - p1)" by (rule np_clip_unit)
    then show ?thesis using 2 by simp
  next
    case 3
    then have "1 \<le> (v - p1) / (p99 - p1)" using pos by simp
    then have "np_clip ((v - p1) / (p99 - p1)) 0 1 = 1" by (rule np_clip_unit)
    then show ?thesis using 3 assms pos by simp
  qed
qed

lemma clean_pixel: "zero_to_nan (Val (real_of_int d)) = (if d = 0 then NaN else Val (real_of_int d))"
  by simp

text \<open>
  Claim C1. For every thermal grid, every pixel of the temperature estimate is either
  invalid or a value in \<open>[-50, 80]\<close>: no value outside that interval is emitted.
\<close>

theorem lst_output_within_envelope:
  "grid_all (cell_within (- 50) 80) (simple_lst_calculation thermal_dn)"
proof (cases "valid_dn thermal_dn = []")
  case True
  have "grid_all (\<lambda>c. c = NaN) (grid_map zero_to_nan (astype_float64 thermal_dn))"
    using True by (intro valid_values_Nil) (simp add: valid_values_clean)
  then show ?thesis
    unfolding simple_lst_calculation_empty[OF True] by (rule grid_all_mono) simp
next
  case False
  show ?thesis
    unfolding simple_lst_calculation_unfold[OF False] grid_all_map
    by (rule grid_all_True) (rule discard_impossible_within)
qed

theorem lst_output_within_envelope_witness:
  "grid_all (cell_within (- 50) 80) (simple_lst_calculation [[0, 100], [200, 300]])
   \<and> simple_lst_calculation [[0, 100], [200, 300]] = [[NaN, Val 10], [Val 27.5, Val 45]]"
  using lst_output_within_envelope[of "[[0, 100], [200, 300]]"]
  by (simp add: simple_lst_calculation_def grid_map_def astype_float64_def valid_values_def
      np_percentile_def np_mean_def full_like_def Let_def np_clip_def)

lemma cell_within_remap:
  assumes "r = (10, 45) \<or> r = (15, 50)"
  shows "cell_within 10 50 (cell_map (\<lambda>v. fst r + np_clip x 0 1 * (snd r - fst r)) c)"
proof (cases c)
  case NaN then show ?thesis by simp
next
  case (Val v)
  have "fst r \<le> snd r" using assms by auto
  from remap_bounds[OF this, of "np_clip x 0 1"] clip01[of x]
  have "fst r \<le> fst r + np_clip x 0 1 * (snd r - fst r)"
       "fst r + np_clip x 0 1 * (snd r - fst r) \<le> snd r" by auto
  moreover have "10 \<le> fst r" "snd r \<le> 50" using assms by auto
  ultimately show ?thesis using Val by simp
qed

text \<open>
  Claim C10. For every thermal grid, every valid pixel of the temperature estimate lies in
  \<open>[10, 50]\<close>, the union of the two regime ranges: the clamped normalisation keeps a
  remapped value within the selected range, and so does the midpoint of the degenerate case.
\<close>

theorem lst_output_within_regime_union:
  "grid_all (cell_within 10 50) (simple_lst_calculation thermal_dn)"
proof (cases "valid_dn thermal_dn = []")
  case True
  have "grid_all (\<lambda>c. c = NaN) (grid_map zero_to_nan (astype_float64 thermal_dn))"
    using True by (intro valid_values_Nil) (simp add: valid_values_clean)
  then show ?thesis
    unfolding simple_lst_calculation_empty[OF True] by (rule grid_all_mono) simp
next
  case False
  let ?v = "valid_dn thermal_dn"
  show ?thesis
  proof (cases "np_percentile ?v 99 - np_percentile ?v 1 > 0")
    case True
    have h: "\<And>c. cell_within 10 50 (cell_map (\<lambda>v. fst (regime_range ?v)
         + np_clip ((v - np_percentile ?v 1) / (np_percentile ?v 99 - np_percentile ?v 1)) 0 1
           * (snd (regime_range ?v) - fst (regime_range ?v))) c)"
    proof -
      fix c show "cell_within 10 50 (cell_map (\<lambda>v. fst (regime_range ?v)
         + np_clip ((v - np_percentile ?v 1) / (np_percentile ?v 99 - np_percentile ?v 1)) 0 1
           * (snd (regime_range ?v) - fst (regime_range ?v))) c)"
      proof (cases c)
        case NaN then show ?thesis by simp
      next
        case (Val v)
        then show ?thesis
          using cell_within_remap[OF regime_range_cases, of ?v
              "(v - np_percentile ?v 1) / (np_percentile ?v 99 - np_percentile ?v 1)" "Val v"]
          by simp
      qed
    qed
    show ?thesis
      unfolding simple_lst_calculation_remap_raw[OF False True] grid_all_map
      by (rule grid_all_True) (rule h)
  next
    case degenerate: False
    have "cell_within 10 50 (Val ((fst (regime_range ?v) + snd (regime_range ?v)) / 2))"
      using regime_range_cases[of ?v] by auto
    then show ?thesis
      unfolding simple_lst_calculation_degenerate[OF False degenerate] full_like_def grid_all_map
      by (intro grid_all_True)
  qed
qed

theorem lst_output_within_regime_union_witness:
  "grid_all (cell_within 10 50) (simple_lst_calculation [[0, 40000], [50000, 60000]])
   \<and> simple_lst_calculation [[0, 40000], [50000, 60000]] = [[NaN, Val 15], [Val 32.5, Val 50]]"
  using lst_output_within_regime_union[of "[[0, 40000], [50000, 60000]]"]
  by (simp add: simple_lst_calculation_def grid_map_def astype_float64_def valid_values_def
      np_percentile_def np_mean_def full_like_def Let_def np_clip_def)

text \<open>
  Claim C2. For a thermal grid with at least one non-zero pixel, the regime is selected by
  the mean of the valid digital values (below 35000: \<open>[10, 45]\<close>, otherwise \<open>[15, 50]\<close>).
  When the span between the 1st and 99th percentile is positive, each valid pixel is
  clamped to the span, normalised and remapped linearly into the selected range; when it
  is not, the output grid is filled with the midpoint of the range, 27.5 or 32.5.
\<close>

theorem lst_remap_by_regime:
  assumes "valid_dn t \<noteq> []"
  shows "let valid = valid_dn t;
             p1 = np_percentile valid 1;
             p99 = np_percentile valid 99;
             r = regime_range valid
         in (p99 - p1 > 0 \<longrightarrow>
               simple_lst_calculation t =
                 grid_map (\<lambda>d. if d = 0 then NaN else Val (remap_pixel p1 p99 r (real_of_int d))) t)
          \<and> (\<not> p99 - p1 > 0 \<longrightarrow>
               simple_lst_calculation t =
                 full_like t (Val (if np_mean valid < 35000 then 27.5 else 32.5)))"
proof -
  let ?v = "valid_dn t"
  let ?p1 = "np_percentile ?v 1"
  let ?p99 = "np_percentile ?v 99"
  have a: "simple_lst_calculation t =
      grid_map (\<lambda>d. if d = 0 then NaN else Val (remap_pixel ?p1 ?p99 (regime_range ?v) (real_of_int d))) t"
    if pos: "?p99 - ?p1 > 0"
  proof -
    have lt: "?p1 < ?p99" using pos by simp
    show ?thesis
      unfolding simple_lst_calculation_remap_raw[OF assms pos] astype_float64_def grid_map_map
        clean_pixel clip_normalise[OF lt] remap_pixel_def
      by (intro grid_map_cong_all grid_all_True) simp
  qed
  have b: "simple_lst_calculation t = full_like t (Val (if np_mean ?v < 35000 then 27.5 else 32.5))"
    if deg: "\<not> ?p99 - ?p1 > 0"
    unfolding simple_lst_calculation_degenerate[OF assms deg]
    by (simp add: regime_range_def)
  show ?thesis unfolding Let_def using a b by blast
qed

theorem lst_remap_by_regime_witness:
  "valid_dn [[0, 100], [200, 300]] \<noteq> []
   \<and> simple_lst_calculation [[0, 100], [200, 300]] = [[NaN, Val 10], [Val 27.5, Val 45]]
   \<and> valid_dn [[0, 40000], [40000, 40000]] \<noteq> []
   \<and> simple_lst_calculation [[0, 40000], [40000, 40000]]
       = [[Val 32.5, Val 32.5], [Val 32.5, Val 32.5]]"
proof -
  have v: "valid_dn [[0, 100], [200, 300]] = [100, 200, 300]"
    by (simp add: valid_dn_def)
  have p1: "np_percentile [100, 200, 300] 1 = 102"
    by (simp add: np_percentile_def Let_def)
  have p99: "np_percentile [100, 200, 300] 99 = 298"
    by (simp add: np_percentile_def Let_def)
  have r: "regime_range [100, 200, 300] = (10, 45)"
    by (simp add: regime_range_def np_mean_def)
  have a: "simple_lst_calculation [[0, 100], [200, 300]] = [[NaN, Val 10], [Val 27.5, Val 45]]"
    using lst_remap_by_regime[of "[[0, 100], [200, 300]]"]
    unfolding v Let_def p1 p99 r
    by (simp add: remap_pixel_def grid_map_def)
  have v': "valid_dn [[0, 40000], [40000, 40000]] = [40000, 40000, 40000]"
    by (simp add: valid_dn_def)
  have q1: "np_percentile [40000, 40000, 40000] 1 = 40000"
    by (simp add: np_percentile_def Let_def)
  have q99: "np_percentile [40000, 40000, 40000] 99 = 40000"
    by (simp add: np_percentile_def Let_def)
  have m: "np_mean [40000, 40000, 40000] = 40000"
    by (simp add: np_mean_def)
  have b: "simple_lst_calculation [[0, 40000], [40000, 40000]]
      = [[Val 32.5, Val 32.5], [Val 32.5, Val 32.5]]"
    using lst_remap_by_regime[of "[[0, 40000], [40000, 40000]]"]
    unfolding v' Let_def q1 q99 m
    by (simp add: full_like_def grid_map_def)
  show ?thesis using a b by (simp add: v v')
qed


text \<open>
  Claim C3 states that every pixel with digital value zero is invalid in the output, also
  when the percentile span is degenerate. In the degenerate branch \<^verbatim>\<open>np.full_like\<close>
  overwrites the whole grid, the nodata pixels included: on the band below, whose only
  non-zero value is 7000, the zero pixel comes out as 27.5.
\<close>

theorem lst_degenerate_fills_nodata:
  "simple_lst_calculation [[0, 7000], [7000, 7000]] = [[Val 27.5, Val 27.5], [Val 27.5, Val 27.5]]"
  by (simp add: simple_lst_calculation_def grid_map_def astype_float64_def valid_values_def
      np_percentile_def np_mean_def full_like_def Let_def)

section \<open>Propagation of invalid input\<close>

lemma cell_values_replicate_NaN: "cell_values (map (\<lambda>_. NaN) xs) = []"
  by (induction xs) auto

lemma valid_values_full_like_NaN: "valid_values (full_like g NaN) = []"
  by (induction g) (simp_all add: valid_values_def full_like_def grid_map_def cell_values_append
      cell_values_replicate_NaN)

lemma map_length_full_like: "map length (full_like g c) = map length g"
  by (simp add: full_like_def grid_map_def comp_def)

text \<open>
  Claim C6. An all-zero thermal grid yields an all-invalid temperature grid of the same
  shape, and the heat-anomaly index of that grid is again all-invalid and of the same
  shape. Both functions are total on these inputs: no reduction is applied to an empty
  array.
\<close>

theorem all_zero_thermal_propagates:
  assumes "\<forall>row \<in> set t. \<forall>d \<in> set row. d = 0"
  shows "simple_lst_calculation t = full_like t NaN
       \<and> simple_uhi_calculation (simple_lst_calculation t) = full_like t NaN
       \<and> map length (simple_lst_calculation t) = map length t
       \<and> map length (simple_uhi_calculation (simple_lst_calculation t)) = map length t"
proof -
  have "filter (\<lambda>d. d \<noteq> 0) (concat t) = []"
    using assms by (auto simp: filter_empty_conv)
  then have empty: "valid_dn t = []" by (simp add: valid_dn_def)
  have "grid_map zero_to_nan (astype_float64 t) = full_like t NaN"
    using assms by (simp add: grid_map_def astype_float64_def full_like_def)
  then have lst: "simple_lst_calculation t = full_like t NaN"
    using simple_lst_calculation_empty[OF empty] by simp
  have "full_like (full_like t NaN) NaN = full_like t NaN"
    by (simp add: full_like_def grid_map_def)
  then have uhi: "simple_uhi_calculation (full_like t NaN) = full_like t NaN"
    by (simp add: simple_uhi_calculation_def valid_values_full_like_NaN)
  show ?thesis using lst uhi by (simp add: map_length_full_like)
qed

theorem all_zero_thermal_propagates_witness:
  "list_all (list_all (\<lambda>d. d = 0)) [[0, 0], [0, 0::int]]
   \<and> simple_lst_calculation [[0, 0], [0, 0]] = [[NaN, NaN], [NaN, NaN]]
   \<and> simple_uhi_calculation (simple_lst_calculation [[0, 0], [0, 0]]) = [[NaN, NaN], [NaN, NaN]]"
  using all_zero_thermal_propagates[of "[[0, 0], [0, 0]]"]
  by (simp add: full_like_def grid_map_def simple_uhi_calculation_def valid_values_def)

section \<open>Properties of the heat-anomaly index\<close>

text \<open>
  Claim C5. For a temperature grid with at least one valid pixel, the heat-anomaly index is,
  at each valid pixel, the pixel value minus the median of the valid pixels of the same
  grid, without clamping; at a pixel equal to the median the anomaly is \<open>0\<close>.
\<close>

theorem uhi_deviation_from_median:
  assumes "valid_values lst_data \<noteq> []"
  shows "simple_uhi_calculation lst_data =
           grid_map (\<lambda>c. case c of NaN \<Rightarrow> NaN | Val v \<Rightarrow> Val (v - np_median (valid_values lst_data))) lst_data
       \<and> (\<forall>i < length lst_data. \<forall>j < length (lst_data ! i).
             lst_data ! i ! j = Val (np_median (valid_values lst_data)) \<longrightarrow>
             simple_uhi_calculation lst_data ! i ! j = Val 0)"
proof -
  have eq: "simple_uhi_calculation lst_data =
      grid_map (\<lambda>c. case c of NaN \<Rightarrow> NaN | Val v \<Rightarrow> Val (v - np_median (valid_values lst_data))) lst_data"
    using assms unfolding simple_uhi_calculation_def Let_def
    by (auto simp: grid_map_def split: cell.splits intro!: map_cong)
  show ?thesis unfolding eq by (simp add: grid_map_def)
qed

theorem uhi_deviation_from_median_witness:
  "valid_values [[NaN, Val 10], [Val 27.5, Val 45]] \<noteq> []
   \<and> np_median (valid_values [[NaN, Val 10], [Val 27.5, Val 45]]) = 27.5
   \<and> simple_uhi_calculation [[NaN, Val 10], [Val 27.5, Val 45]] = [[NaN, Val (- 17.5)], [Val 0, Val 17.5]]"
  using uhi_deviation_from_median[of "[[NaN, Val 10], [Val 27.5, Val 45]]"]
  by (simp add: valid_values_def np_median_def grid_map_def)

section \<open>Properties of the vegetation index\<close>

lemma map2_map2: "map2 f (map2 g xs ys) (map2 h xs ys) = map2 (\<lambda>x y. f (g x y) (h x y)) xs ys"
proof (induction xs arbitrary: ys)
  case Nil show ?case by simp
next
  case (Cons x xs) then show ?case by (cases ys) simp_all
qed

lemma map2_maps: "map2 f (map a xs) (map b ys) = map2 (\<lambda>x y. f (a x) (b y)) xs ys"
proof (induction xs arbitrary: ys)
  case Nil show ?case by simp
next
  case (Cons x xs) then show ?case by (cases ys) simp_all
qed

lemma map_map2: "map f (map2 g xs ys) = map2 (\<lambda>x y. f (g x y)) xs ys"
  by (simp add: comp_def case_prod_unfold)

lemma grid_map2_grid_map2:
  "grid_map2 f (grid_map2 g A B) (grid_map2 h A B) = grid_map2 (\<lambda>x y. f (g x y) (h x y)) A B"
  unfolding grid_map2_def by (simp add: map2_map2)

lemma grid_map2_grid_maps:
  "grid_map2 f (grid_map a A) (grid_map b B) = grid_map2 (\<lambda>x y. f (a x) (b y)) A B"
  unfolding grid_map2_def grid_map_def by (simp add: map2_maps)

lemma grid_map_grid_map2: "grid_map f (grid_map2 g A B) = grid_map2 (\<lambda>x y. f (g x y)) A B"
  unfolding grid_map2_def grid_map_def map_map2[of "map f"] map_map2[of f] ..

lemma grid_all_map2: "(\<And>x y. P (f x y)) \<Longrightarrow> grid_all P (grid_map2 f A B)"
  unfolding grid_all_def grid_map2_def by (auto elim!: in_set_zipE)

lemma ndvi_pixel_code:
  "cell_map (\<lambda>v. np_clip v (- 1) 1)
     (where_positive
        (cell_map2 (+) (zero_to_nan (Val (real_of_int n))) (zero_to_nan (Val (real_of_int r))))
        (cell_map2 (/)
           (cell_map2 (-) (zero_to_nan (Val (real_of_int n))) (zero_to_nan (Val (real_of_int r))))
           (cell_map2 (+) (zero_to_nan (Val (real_of_int n))) (zero_to_nan (Val (real_of_int r))))))
   = ndvi_pixel r n"
  by (simp add: ndvi_pixel_def np_clip_def min.commute max.commute)

lemma simple_ndvi_calculation_pixelwise:
  "simple_ndvi_calculation red_dn nir_dn = grid_map2 (\<lambda>n r. ndvi_pixel r n) nir_dn red_dn"
  unfolding simple_ndvi_calculation_def Let_def astype_float64_def grid_map_map
    grid_map2_grid_maps grid_map2_grid_map2 grid_map_grid_map2 ndvi_pixel_code ..

lemma ndvi_pixel_within: "cell_within (- 1) 1 (ndvi_pixel r n)"
  by (simp add: ndvi_pixel_def)

text \<open>
  Claim C4. For red and near-infrared grids of one shape, the vegetation index is, at each
  pixel where both bands are non-zero and \<open>nir + red > 0\<close>, the value
  \<open>(nir - red) / (nir + red)\<close> clamped to \<open>[-1, 1]\<close>, and invalid at every other
  pixel; every valid output value lies in \<open>[-1, 1]\<close>; and the scene with
  \<open>red = [10, 20; 30, 40]\<close> and \<open>nir = [40, 30; 20, 10]\<close> yields
  \<open>[0.6, 0.2; -0.2, -0.6]\<close>.
\<close>

theorem ndvi_pixelwise_clamped:
  assumes "map length red_dn = map length nir_dn"
  shows "simple_ndvi_calculation red_dn nir_dn = grid_map2 (\<lambda>nir red. ndvi_pixel red nir) nir_dn red_dn
       \<and> map length (simple_ndvi_calculation red_dn nir_dn) = map length red_dn
       \<and> grid_all (cell_within (- 1) 1) (simple_ndvi_calculation red_dn nir_dn)
       \<and> simple_ndvi_calculation [[10, 20], [30, 40]] [[40, 30], [20, 10]]
           = [[Val 0.6, Val 0.2], [Val (- 0.2), Val (- 0.6)]]"
proof -
  have shape: "map length (grid_map2 f B A) = map length A" if "map length A = map length B"
    for f :: "int \<Rightarrow> int \<Rightarrow> cell" and A B :: dn_grid
    using that unfolding grid_map2_def
  proof (induction A arbitrary: B)
    case Nil then show ?case by simp
  next
    case (Cons a A) then show ?case by (cases B) auto
  qed
  have ex: "grid_map2 (\<lambda>n r. ndvi_pixel r n) [[40, 30], [20, 10]] [[10, 20], [30, 40]]
      = [[Val 0.6, Val 0.2], [Val (- 0.2), Val (- 0.6)]]"
    by (simp add: grid_map2_def ndvi_pixel_def)
  show ?thesis
    unfolding simple_ndvi_calculation_pixelwise
    using shape[OF assms] ex by (simp add: grid_all_map2 ndvi_pixel_within)
qed

theorem ndvi_pixelwise_clamped_witness:
  "map length [[0, 5, 3], [- 1, - 4, 2::int]] = map length [[7, 0, 1], [3, 4, 2::int]]
   \<and> simple_ndvi_calculation [[0, 5, 3], [- 1, - 4, 2]] [[7, 0, 1], [3, 4, 2]]
       = [[NaN, NaN, Val (- 0.5)], [Val 1, NaN, Val 0]]"
  using ndvi_pixelwise_clamped[of "[[0, 5, 3], [- 1, - 4, 2]]" "[[7, 0, 1], [3, 4, 2]]"]
  by (simp add: grid_map2_def ndvi_pixel_def)

section \<open>Properties of the statistics aggregator\<close>

lemma dict_get_set: "dict_get (dict_set d k v) k' = (if k' = k then Some v else dict_get d k')"
  by (induction d) (auto simp: dict_get_def)

lemma np_min_Min:
  assumes "a \<noteq> []"
  shows "np_min a = Min (set a)"
proof (cases a)
  case Nil then show ?thesis using assms by simp
next
  case (Cons x xs)
  show ?thesis unfolding Cons np_min_def Min.set_eq_fold by simp
qed

lemma np_max_Max:
  assumes "a \<noteq> []"
  shows "np_max a = Max (set a)"
proof (cases a)
  case Nil then show ?thesis using assms by simp
next
  case (Cons x xs)
  show ?thesis unfolding Cons np_max_def Max.set_eq_fold by simp
qed

lemma np_std_variance:
  "np_std a = sqrt (sum_list (map (\<lambda>x. (x - sum_list a / real (length a)) ^ 2) a) / real (length a))"
  by (simp add: np_std_def np_mean_def)

lemma stats_block_get:
  "dict_get (stats_block name g st) k =
     (if k = name @ ''_std'' then
        Some (PyFloat (if valid_values g = [] then NaN else Val (np_std (valid_values g))))
      else if k = name @ ''_mean'' then
        Some (PyFloat (if valid_values g = [] then NaN else Val (np_mean (valid_values g))))
      else if k = name @ ''_max'' then
        Some (PyFloat (if valid_values g = [] then NaN else Val (np_max (valid_values g))))
      else if k = name @ ''_min'' then
        Some (PyFloat (if valid_values g = [] then NaN else Val (np_min (valid_values g))))
      else dict_get st k)"
  by (simp add: stats_block_def Let_def dict_get_set)

text \<open>
  Claim C7. For each of the three index grids, \<^verbatim>\<open>calculate_simple_stats\<close> stores under
  the keys of that grid the minimum, the maximum, the mean and the population standard
  deviation of its valid pixels when there is one, and the invalid marker for all four
  when there is none.
\<close>

theorem calculate_simple_stats_per_grid:
  assumes "(name, g) \<in> {(''LST'', lst), (''NDVI'', ndvi), (''UHI'', uhi)}"
  shows "let st = calculate_simple_stats lst ndvi uhi;
             v = valid_values g;
             mean = sum_list v / real (length v)
         in (v \<noteq> [] \<longrightarrow>
               dict_get st (name @ ''_min'') = Some (PyFloat (Val (Min (set v))))
             \<and> dict_get st (name @ ''_max'') = Some (PyFloat (Val (Max (set v))))
             \<and> dict_get st (name @ ''_mean'') = Some (PyFloat (Val mean))
             \<and> dict_get st (name @ ''_std'')
                 = Some (PyFloat (Val (sqrt (sum_list (map (\<lambda>x. (x - mean) ^ 2) v) / real (length v))))))
          \<and> (v = [] \<longrightarrow>
               dict_get st (name @ ''_min'') = Some (PyFloat NaN)
             \<and> dict_get st (name @ ''_max'') = Some (PyFloat NaN)
             \<and> dict_get st (name @ ''_mean'') = Some (PyFloat NaN)
             \<and> dict_get st (name @ ''_std'') = Some (PyFloat NaN))"
proof -
  consider "name = ''LST''" "g = lst" | "name = ''NDVI''" "g = ndvi" | "name = ''UHI''" "g = uhi"
    using assms by auto
  then show ?thesis
  proof cases
    case 1
    then show ?thesis
      by (simp add: calculate_simple_stats_def stats_block_get Let_def np_min_Min np_max_Max
          np_std_variance np_mean_def)
  next
    case 2
    then show ?thesis
      by (simp add: calculate_simple_stats_def stats_block_get Let_def np_min_Min np_max_Max
          np_std_variance np_mean_def)
  next
    case 3
    then show ?thesis
      by (simp add: calculate_simple_stats_def stats_block_get Let_def np_min_Min np_max_Max
          np_std_variance np_mean_def)
  qed
qed

theorem calculate_simple_stats_per_grid_witness:
  "(''LST'', [[Val 1, Val 3]]) \<in> {(''LST'', [[Val 1, Val 3]]), (''NDVI'', [[NaN, NaN]]), (''UHI'', [[Val (- 1), Val 1]])}
   \<and> (''NDVI'', [[NaN, NaN]]) \<in> {(''LST'', [[Val 1, Val 3]]), (''NDVI'', [[NaN, NaN]]), (''UHI'', [[Val (- 1), Val 1]])}
   \<and> dict_get (calculate_simple_stats [[Val 1, Val 3]] [[NaN, NaN]] [[Val (- 1), Val 1]]) ''LST_min'' = Some (PyFloat (Val 1))
   \<and> dict_get (calculate_simple_stats [[Val 1, Val 3]] [[NaN, NaN]] [[Val (- 1), Val 1]]) ''LST_max'' = Some (PyFloat (Val 3))
   \<and> dict_get (calculate_simple_stats [[Val 1, Val 3]] [[NaN, NaN]] [[Val (- 1), Val 1]]) ''LST_mean'' = Some (PyFloat (Val 2))
   \<and> dict_get (calculate_simple_stats [[Val 1, Val 3]] [[NaN, NaN]] [[Val (- 1), Val 1]]) ''LST_std'' = Some (PyFloat (Val 1))
   \<and> dict_get (calculate_simple_stats [[Val 1, Val 3]] [[NaN, NaN]] [[Val (- 1), Val 1]]) ''NDVI_std'' = Some (PyFloat NaN)"
  using calculate_simple_stats_per_grid[of "''LST''" "[[Val 1, Val 3]]" "[[Val 1, Val 3]]" "[[NaN, NaN]]" "[[Val (- 1), Val 1]]"]
    calculate_simple_stats_per_grid[of "''NDVI''" "[[NaN, NaN]]" "[[Val 1, Val 3]]" "[[NaN, NaN]]" "[[Val (- 1), Val 1]]"]
  by (simp add: valid_values_def Let_def)

section \<open>Properties of the colour range\<close>

text \<open>The three policies of \<^verbatim>\<open>create_simple_plot\<close>, selected by the words in the title.\<close>

lemma vrange_by_title:
  "create_simple_plot_vrange data title =
     (let v = valid_values data in
      if str_contains ''LST'' title \<or> str_contains ''Temperature'' title then
        (if v \<noteq> [] then (Some (max 15 (np_percentile v 2)), Some (min 60 (np_percentile v 98)))
         else (Some 15, Some 50))
      else if str_contains ''UHI'' title then
        (if v \<noteq> [] then
           (Some (- min (max \<bar>np_percentile v 2\<bar> \<bar>np_percentile v 98\<bar>) 12),
            Some (min (max \<bar>np_percentile v 2\<bar> \<bar>np_percentile v 98\<bar>) 12))
         else (Some (- 8), Some 8))
      else
        (if v \<noteq> [] then (Some (np_percentile v 5), Some (np_percentile v 95))
         else (None, None)))"
  by (simp add: create_simple_plot_vrange_def Let_def)

text \<open>
  Claim C8 states that the colour range of a heat-anomaly grid is symmetric about zero,
  with magnitude \<open>min(max(|p2|, |p98|), 12)\<close>. The renderer recognises that kind by the
  word \<^verbatim>\<open>UHI\<close> in the title, but \<^verbatim>\<open>save_outputs\<close> titles the heat-anomaly image
  \<^verbatim>\<open>Urban Heat Island - <period>\<close>, which does not contain it: the grid below is
  rendered with the range of the last branch, \<open>[p5, p95] = [-1.7, 17.15]\<close>, where a title
  with the word \<^verbatim>\<open>UHI\<close> gives \<open>[-12, 12]\<close>.
\<close>

theorem uhi_title_misses_symmetric_range:
  "save_outputs_title ''2020'' ''UHI'' = ''Urban Heat Island - 2020''
   \<and> save_outputs_vrange [[Val (- 2), Val 0], [Val 1, Val 20]] ''2020'' ''UHI''
       = (Some (- 1.7), Some 17.15)
   \<and> create_simple_plot_vrange [[Val (- 2), Val 0], [Val 1, Val 20]] ''UHI 2020''
       = (Some (- 12), Some 12)"
  by (simp add: save_outputs_vrange_def save_outputs_title_def create_simple_plot_vrange_def
      starts_with_def valid_values_def np_percentile_def Let_def)

section \<open>Properties of the batch driver\<close>

lemma dict_set_fresh: "k \<notin> fst ` set d \<Longrightarrow> dict_set d k v = d @ [(k, v)]"
  by (induction d) auto

lemma process_scenes_fresh:
  assumes "distinct (map period_of fs)"
    and "\<forall>f \<in> set fs. period_of f \<notin> fst ` set acc"
  shows "process_scenes dir reader fs acc =
           acc @ concat (map (\<lambda>f. case process_image reader (path_join dir f) (period_of f) of
                                     Inr stats \<Rightarrow> [(period_of f, stats)]
                                   | Inl e \<Rightarrow> []) fs)"
  using assms
proof (induction fs arbitrary: acc)
  case Nil
  show ?case by simp
next
  case (Cons f fs)
  show ?case
  proof (cases "process_image reader (path_join dir f) (period_of f)")
    case (Inl e)
    then show ?thesis using Cons by simp
  next
    case (Inr stats)
    have fresh: "period_of f \<notin> fst ` set acc" using Cons.prems by simp
    have "period_of f \<notin> period_of ` set fs" using Cons.prems by simp
    then have "\<forall>g \<in> set fs. period_of g \<noteq> period_of f" by (metis imageI)
    then have "\<forall>g \<in> set fs. period_of g \<notin> fst ` set (acc @ [(period_of f, stats)])"
      using Cons.prems by simp
    then have "process_scenes dir reader fs (acc @ [(period_of f, stats)]) =
        (acc @ [(period_of f, stats)]) @
          concat (map (\<lambda>f. case process_image reader (path_join dir f) (period_of f) of
                             Inr stats \<Rightarrow> [(period_of f, stats)]
                           | Inl e \<Rightarrow> []) fs)"
      using Cons.prems by (intro Cons.IH) simp_all
    then show ?thesis using Inr by (simp add: dict_set_fresh[OF fresh])
  qed
qed

lemma dict_values_rows:
  "dict_values (concat (map (\<lambda>f. case process_image reader (path_join dir f) (period_of f) of
                                     Inr stats \<Rightarrow> [(period_of f, stats)]
                                   | Inl e \<Rightarrow> []) fs))
   = scene_rows dir reader fs"
  by (induction fs) (auto simp: dict_values_def scene_rows_def split: sum.splits)

lemma distinct_periods_sort:
  "distinct (map period_of (sort fs)) = distinct (map period_of fs)"
  by (simp add: distinct_map)

text \<open>
  Claim C9, amended. When the scene files found in the directory have pairwise distinct
  period labels, the run returns without raising; its summary holds exactly the rows of
  the scenes that were processed without an exception, in processing order (the sorted
  order of the file names), a scene that raised being skipped while the later ones are
  still processed; and no summary is written when there is no such row, in particular when
  no scene file is found.
\<close>

theorem run_analysis_isolates_failures:
  assumes "distinct (map period_of (filter (ends_with ''.tif'') names))"
  shows "run_analysis clipped_dir reader (Inr names) =
           (let rows = scene_rows clipped_dir reader (sort (filter (ends_with ''.tif'') names))
            in Inr (if rows = [] then None else Some rows))"
proof -
  let ?files = "sort (filter (ends_with ''.tif'') names)"
  have "process_scenes clipped_dir reader ?files [] =
          [] @ concat (map (\<lambda>f. case process_image reader (path_join clipped_dir f) (period_of f) of
                                     Inr stats \<Rightarrow> [(period_of f, stats)]
                                   | Inl e \<Rightarrow> []) ?files)"
    using assms by (intro process_scenes_fresh) (simp_all add: distinct_periods_sort)
  then have rows: "dict_values (process_scenes clipped_dir reader ?files [])
      = scene_rows clipped_dir reader ?files"
    by (simp add: dict_values_rows)
  have empty: "(process_scenes clipped_dir reader ?files [] = [])
      = (scene_rows clipped_dir reader ?files = [])"
    by (metis rows dict_values_def map_is_Nil_conv)
  show ?thesis
  proof (cases "filter (ends_with ''.tif'') names = []")
    case True
    then show ?thesis by (simp add: run_analysis_def scene_rows_def)
  next
    case False
    then show ?thesis using rows empty by (simp add: run_analysis_def Let_def)
  qed
qed


lemma process_image_example:
  assumes "path \<noteq> ''clipped/b_clipped_NGP.tif''"
  shows "process_image example_reader path per =
     Inr (dict_set
            (calculate_simple_stats
               (simple_lst_calculation [[100, 200], [300, 400]])
               (simple_ndvi_calculation [[100, 200], [300, 400]] [[100, 200], [300, 400]])
               (simple_uhi_calculation (simple_lst_calculation [[100, 200], [300, 400]])))
            ''Period'' (PyStr per))"
  using assms
  by (simp add: process_image_def example_reader_def example_scene_def has_positive_def Let_def)

lemma process_image_example_fails:
  "process_image example_reader ''clipped/b_clipped_NGP.tif'' per = Inl RasterioIOError"
  by (simp add: process_image_def example_reader_def)

lemma period_of_examples:
  "period_of ''a.tif'' = ''a.tif''"
  "period_of ''a.tif_clipped_NGP.tif'' = ''a.tif''"
  "period_of ''a_clipped_NGP.tif'' = ''a''"
  "period_of ''b_clipped_NGP.tif'' = ''b''"
  "period_of ''c_clipped_NGP.tif'' = ''c''"
  by (simp_all add: period_of_def starts_with_def)

lemma sort_examples:
  "sort [''a.tif'', ''a.tif_clipped_NGP.tif''] = [''a.tif'', ''a.tif_clipped_NGP.tif'']"
  "sort [''c_clipped_NGP.tif'', ''a_clipped_NGP.tif'', ''b_clipped_NGP.tif'']
     = [''a_clipped_NGP.tif'', ''b_clipped_NGP.tif'', ''c_clipped_NGP.tif'']"
  by code_simp+

lemma filter_examples:
  "filter (ends_with ''.tif'') [''a.tif'', ''a.tif_clipped_NGP.tif''] = [''a.tif'', ''a.tif_clipped_NGP.tif'']"
  "filter (ends_with ''.tif'') [''c_clipped_NGP.tif'', ''a_clipped_NGP.tif'', ''notes.txt'', ''b_clipped_NGP.tif'']
     = [''c_clipped_NGP.tif'', ''a_clipped_NGP.tif'', ''b_clipped_NGP.tif'']"
  "filter (ends_with ''.tif'') [''notes.txt''] = []"
  by code_simp+

text \<open>
  Claim C9 as stated asks for one summary row per successfully processed scene. The rows
  are stored under the period label, and two file names can share one: both scenes below
  are processed without an exception, and the summary has a single row.
\<close>

theorem summary_row_per_scene_counterexample:
  "\<not> isl (process_image example_reader (path_join ''clipped'' ''a.tif'') (period_of ''a.tif''))
   \<and> \<not> isl (process_image example_reader (path_join ''clipped'' ''a.tif_clipped_NGP.tif'')
               (period_of ''a.tif_clipped_NGP.tif''))
   \<and> map_option length
        (projr (run_analysis ''clipped'' example_reader (Inr [''a.tif'', ''a.tif_clipped_NGP.tif''])))
       = Some 1"
  unfolding run_analysis_def sum.case filter_examples sort_examples Let_def
  by (simp add: period_of_examples path_join_def process_image_example dict_values_def Let_def)

theorem run_analysis_isolates_failures_witness:
  "distinct (map period_of (filter (ends_with ''.tif'')
       [''c_clipped_NGP.tif'', ''a_clipped_NGP.tif'', ''notes.txt'', ''b_clipped_NGP.tif'']))
   \<and> map_option (map (\<lambda>row. dict_get row ''Period''))
        (projr (run_analysis ''clipped'' example_reader
           (Inr [''c_clipped_NGP.tif'', ''a_clipped_NGP.tif'', ''notes.txt'', ''b_clipped_NGP.tif''])))
       = Some [Some (PyStr ''a''), Some (PyStr ''c'')]
   \<and> distinct (map period_of (filter (ends_with ''.tif'') [''notes.txt'']))
   \<and> run_analysis ''clipped'' example_reader (Inr [''notes.txt'']) = Inr None"
  using run_analysis_isolates_failures[of
      "[''c_clipped_NGP.tif'', ''a_clipped_NGP.tif'', ''notes.txt'', ''b_clipped_NGP.tif'']"
      "''clipped''" example_reader]
    run_analysis_isolates_failures[of "[''notes.txt'']" "''clipped''" example_reader]
  unfolding filter_examples sort_examples Let_def scene_rows_def
  by (simp add: period_of_examples path_join_def
      process_image_example process_image_example_fails dict_get_set)

end
